theory Spec2Isabelle
  imports Complex_Main
begin

text \<open>
  The video upload of a media-hosting API, in TypeScript on Bun. The sources hold three
  revisions of \<^verbatim>\<open>handlerUploadVideo\<close>: src/api/videos.ts, part_000 and part_001.
  Each is embedded under its own name (\<open>handlerUploadVideo\<close>,
  \<open>handlerUploadVideo_000\<close>, \<open>handlerUploadVideo_001\<close>), together with the probe,
  the remux step and the two thumbnail handlers of src/api/thumbnails.ts. A handler takes
  the configuration, the collaborators of the run, the request and the world, and
  returns the exception thrown or the response, with the world it leaves.
\<close>

section \<open>Data model\<close>

text \<open>
  The exceptions of the handlers. \<open>BadRequestError\<close>, \<open>NotFoundError\<close> and
  \<open>UserForbiddenError\<close> are the classes imported from \<^verbatim>\<open>./errors\<close>; \<open>Error\<close> is the
  plain JavaScript \<^verbatim>\<open>new Error(msg)\<close> of the source; \<open>RuntimeError\<close> stands for an
  exception raised by the runtime or a library call (JSON.parse, the S3 client, the
  file system), which the source neither catches nor names.
\<close>

datatype error =
    BadRequestError string
  | NotFoundError string
  | UserForbiddenError string
  | Error string
  | RuntimeError string

type_synonym bytes = "nat list"

text \<open>
  Modelled from the spec: the \<^verbatim>\<open>Video\<close> type of \<^verbatim>\<open>../db/videos\<close> is not among the
  sources. The spec's VideoRecord has an identifier, an owning-user identifier, a
  playback URL (initially absent) and a thumbnail URL; these are the fields the
  handlers read and write (\<^verbatim>\<open>video.userID\<close>, \<^verbatim>\<open>video.videoURL\<close>,
  \<^verbatim>\<open>video.thumbnailURL\<close>).
\<close>

record Video =
  videoID :: string
  userID :: string
  videoURL :: "string option"
  thumbnailURL :: "string option"

text \<open>
  A \<^verbatim>\<open>File\<close> of the multipart form: \<^verbatim>\<open>file.type\<close> and the bytes that
  \<^verbatim>\<open>file.arrayBuffer()\<close> gives; \<^verbatim>\<open>file.size\<close> is the number of those bytes.
\<close>

record File =
  file_type :: string
  file_data :: bytes

definition file_size :: "File \<Rightarrow> nat" where
  "file_size file = length (file_data file)"

text \<open>\<^verbatim>\<open>formData.get(name)\<close> is a \<^verbatim>\<open>File\<close>, a string, or null (\<open>None\<close>).\<close>

datatype form_value = FormString string | FormFile File

text \<open>
  The request: the route parameter \<^verbatim>\<open>req.params.videoId\<close> (possibly undefined), the
  headers, and the outcome of \<^verbatim>\<open>await req.formData()\<close>, which throws on a body that is
  not a form.
\<close>

record BunRequest =
  params_videoId :: "string option"
  headers :: "string \<rightharpoonup> string"
  formData :: "error + (string \<rightharpoonup> form_value)"

text \<open>
  \<^verbatim>\<open>ApiConfig\<close> (part_002). The two handles \<^verbatim>\<open>db\<close> and \<^verbatim>\<open>s3Client\<close> are stateful and
  live in the \<open>world\<close> below; the other fields are strings.
\<close>

record ApiConfig =
  jwtSecret :: string
  platform :: string
  filepathRoot :: string
  assetsRoot :: string
  s3Bucket :: string
  s3Region :: string
  s3CfDistribution :: string
  port :: string

text \<open>\<^verbatim>\<open>type Thumbnail = { data: ArrayBuffer; mediaType: string }\<close> (thumbnails.ts).\<close>

record Thumbnail =
  data :: bytes
  mediaType :: string

record s3_object =
  s3_body :: bytes
  s3_type :: "string option"

text \<open>
  Everything the handlers mutate: the rows of the video table, the local file system
  (path to contents), the bucket (key to object) and the module-level map
  \<^verbatim>\<open>videoThumbnails\<close> of thumbnails.ts.
\<close>

record world =
  db :: "Video list"
  disk :: "string \<rightharpoonup> bytes"
  s3 :: "string \<rightharpoonup> s3_object"
  videoThumbnails :: "string \<rightharpoonup> Thumbnail"

text \<open>
  What \<^verbatim>\<open>ffprobe\<close> printed, as the source reads it: output on which \<^verbatim>\<open>JSON.parse\<close>
  throws, JSON without \<^verbatim>\<open>streams[0]\<close>, or a first stream with its \<^verbatim>\<open>width\<close> and
  \<^verbatim>\<open>height\<close> (\<open>None\<close> when the key is absent). Dimensions are integers, as in
  ffprobe's JSON schema.
\<close>

datatype ffprobe_stdout = NotJSON | NoStream | Stream "int option" "int option"

record ffprobe_result =
  ffprobe_exit :: int
  ffprobe_stderr :: string
  ffprobe_out :: ffprobe_stdout

text \<open>
  What \<^verbatim>\<open>ffmpeg\<close> did: its exit code, its standard error, and the contents it left
  at the output path (\<open>None\<close> when it wrote no file).
\<close>

record ffmpeg_result =
  ffmpeg_exit :: int
  ffmpeg_stderr :: string
  ffmpeg_output :: "bytes option"

text \<open>
  The collaborators of one run, none of them among the sources: the two functions of
  \<^verbatim>\<open>../auth\<close>, the string \<^verbatim>\<open>randomBytes(32).toString("base64url")\<close> drawn in this
  run, the two external tools (by input path, and output path for ffmpeg), and the
  bucket's answer to a write under a key (\<open>None\<close>: accepted, otherwise the message
  of the S3 client's exception).
\<close>

record env =
  getBearerToken :: "(string \<rightharpoonup> string) \<Rightarrow> error + string"
  validateJWT :: "string \<Rightarrow> string \<Rightarrow> error + string"
  randomBytes32 :: string
  ffprobe :: "string \<Rightarrow> ffprobe_result"
  ffmpeg :: "string \<Rightarrow> string \<Rightarrow> ffmpeg_result"
  s3_error :: "string \<Rightarrow> string option"

datatype response =
    JSONResponse nat Video
  | DataResponse bytes "(string \<times> string) list"

section \<open>Library functions\<close>

text \<open>\<^verbatim>\<open>String.prototype.split("/")\<close>: the pieces between the slashes, never empty.\<close>

fun splitSlash :: "string \<Rightarrow> string list" where
  "splitSlash [] = [[]]"
| "splitSlash (c # cs) =
     (if c = CHR ''/'' then [] # splitSlash cs
      else (case splitSlash cs of
              [] \<Rightarrow> [[c]]
            | s # ss \<Rightarrow> (c # s) # ss))"

fun joinSlash :: "string list \<Rightarrow> string" where
  "joinSlash [] = []"
| "joinSlash [s] = s"
| "joinSlash (s # t # ss) = s @ ''/'' @ joinSlash (t # ss)"

text \<open>
  \<^verbatim>\<open>path.join\<close> of node:path (POSIX): the non-empty arguments joined with a slash and
  normalised. \<open>normalizeSegments\<close> is Node's \<^verbatim>\<open>normalizeString\<close> read segment by
  segment: empty and \<^verbatim>\<open>.\<close> segments are dropped, \<^verbatim>\<open>..\<close> removes the segment before it,
  and is kept only in a relative path that has nothing left to remove. The third
  argument is the stack of segments kept so far, last one first.
\<close>

fun normalizeSegments :: "bool \<Rightarrow> string list \<Rightarrow> string list \<Rightarrow> string list" where
  "normalizeSegments allowAboveRoot [] acc = rev acc"
| "normalizeSegments allowAboveRoot (s # ss) acc =
     (if s = [] \<or> s = ''.'' then normalizeSegments allowAboveRoot ss acc
      else if s = ''..'' then
        (case acc of
           [] \<Rightarrow> normalizeSegments allowAboveRoot ss (if allowAboveRoot then [''..''] else [])
         | t # ts \<Rightarrow>
             if t = ''..''
             then normalizeSegments allowAboveRoot ss (if allowAboveRoot then ''..'' # acc else acc)
             else normalizeSegments allowAboveRoot ss ts)
      else normalizeSegments allowAboveRoot ss (s # acc))"

definition path_normalize :: "string \<Rightarrow> string" where
  "path_normalize p =
     (case p of
        [] \<Rightarrow> ''.''
      | c # cs \<Rightarrow>
          (let isAbsolute = (c = CHR ''/'');
               trailingSeparator = (last p = CHR ''/'');
               r = joinSlash (normalizeSegments (\<not> isAbsolute) (splitSlash p) [])
           in if r = [] then (if isAbsolute then ''/'' else if trailingSeparator then ''./'' else ''.'')
              else (if isAbsolute then ''/'' else []) @ r @ (if trailingSeparator then ''/'' else [])))"

definition path_join :: "string list \<Rightarrow> string" where
  "path_join args =
     (let joined = joinSlash (filter (\<lambda>a. a \<noteq> []) args)
      in if joined = [] then ''.'' else path_normalize joined)"

section \<open>Collaborators and runtime calls\<close>

text \<open>
  Modelled from the spec: \<^verbatim>\<open>getVideo\<close> of \<^verbatim>\<open>../db/videos\<close> is not among the sources.
  The spec's Video Record Store has \<^verbatim>\<open>get(id) -> VideoRecord | NotFound\<close>: the row with
  that identifier, if there is one.
\<close>

definition getVideo :: "Video list \<Rightarrow> string \<Rightarrow> Video option" where
  "getVideo rows i = find (\<lambda>v. videoID v = i) rows"

text \<open>
  Modelled from the spec: \<^verbatim>\<open>updateVideo\<close> of \<^verbatim>\<open>../db/videos\<close> is not among the
  sources. The spec's \<^verbatim>\<open>update(VideoRecord)\<close> writes the record back: the row with the
  record's identifier is replaced by it.
\<close>

definition updateVideo :: "Video list \<Rightarrow> Video \<Rightarrow> Video list" where
  "updateVideo rows v = map (\<lambda>r. if videoID r = videoID v then v else r) rows"

text \<open>
  The bucket write of the S3 client (\<^verbatim>\<open>cfg.s3Client.write(key, Bun.file(path))\<close> in
  videos.ts, \<^verbatim>\<open>s3file.write(Bun.file(path), { type })\<close> in part_001): the local file
  is read, so a missing file is an error; the bucket may refuse; otherwise the object
  under the key is replaced.
\<close>

definition s3_write :: "env \<Rightarrow> string \<Rightarrow> string \<Rightarrow> string option \<Rightarrow> world \<Rightarrow> (error + unit) \<times> world" where
  "s3_write e key path ctype w =
     (case disk w path of
        None \<Rightarrow> (Inl (RuntimeError ''ENOENT''), w)
      | Some body \<Rightarrow>
          (case s3_error e key of
             Some msg \<Rightarrow> (Inl (RuntimeError msg), w)
           | None \<Rightarrow> (Inr (), w\<lparr>s3 := (s3 w)(key \<mapsto> \<lparr>s3_body = body, s3_type = ctype\<rparr>)\<rparr>)))"

text \<open>
  Modelled from the spec: \<^verbatim>\<open>uploadVideoToS3\<close> of \<^verbatim>\<open>../s3\<close> (called by part_000) is
  not among the sources. The spec's Object Store Uploader, given a storage key, a local
  file path and a content type, writes the file's bytes to the blob store under that key
  with the content type as metadata, overwriting any object at that key, and fails on
  any error of the store.
\<close>

definition uploadVideoToS3 :: "env \<Rightarrow> string \<Rightarrow> string \<Rightarrow> string \<Rightarrow> world \<Rightarrow> (error + unit) \<times> world" where
  "uploadVideoToS3 e key processedFilePath contentType w =
     s3_write e key processedFilePath (Some contentType) w"

text \<open>\<^verbatim>\<open>rm(path, { force: true })\<close> of fs/promises: a missing file is not an error.\<close>

definition rm_force :: "string \<Rightarrow> world \<Rightarrow> world" where
  "rm_force path w = w\<lparr>disk := (disk w)(path := None)\<rparr>"

text \<open>\<^verbatim>\<open>Bun.file(path).delete()\<close>: unlinks the file, and rejects when there is none.\<close>

definition file_delete :: "string \<Rightarrow> world \<Rightarrow> (error + unit) \<times> world" where
  "file_delete path w =
     (case disk w path of
        None \<Rightarrow> (Inl (RuntimeError ''ENOENT''), w)
      | Some _ \<Rightarrow> (Inr (), w\<lparr>disk := (disk w)(path := None)\<rparr>))"

text \<open>\<^verbatim>\<open>Bun.write(path, data)\<close>: the file at the path now holds the data.\<close>

definition bun_write :: "string \<Rightarrow> bytes \<Rightarrow> world \<Rightarrow> world" where
  "bun_write path d w = w\<lparr>disk := (disk w)(path \<mapsto> d)\<rparr>"

text \<open>
  Modelled from the spec: \<^verbatim>\<open>respondWithJSON\<close> of \<^verbatim>\<open>./json\<close> is not among the sources.
  The spec's HTTP surface returns, on success, the status code with the video record as
  structured data.
\<close>

definition respondWithJSON :: "nat \<Rightarrow> Video \<Rightarrow> response" where
  "respondWithJSON code payload = JSONResponse code payload"

section \<open>The probe and the remux step\<close>

text \<open>
  The last conditional of \<^verbatim>\<open>getVideoAspectRatio\<close>, the same in the three revisions:
  \<^verbatim>\<open>Math.floor(width / height) === Math.floor(16 / 9)\<close> gives landscape,
  \<^verbatim>\<open>=== Math.floor(9 / 16)\<close> gives portrait, anything else other. The quotient is
  taken in the reals and floored, as the source does; for integer dimensions below
  \<open>2 ^ 53\<close> the floor of JavaScript's double quotient is the same integer. A zero
  height gives Infinity or NaN in JavaScript, which equals neither floor.
\<close>

definition classify :: "int \<Rightarrow> int \<Rightarrow> string" where
  "classify width height =
     (if height = 0 then ''other''
      else if \<lfloor>real_of_int width / real_of_int height\<rfloor> = \<lfloor>(16::real) / 9\<rfloor> then ''landscape''
      else if \<lfloor>real_of_int width / real_of_int height\<rfloor> = \<lfloor>(9::real) / 16\<rfloor> then ''portrait''
      else ''other'')"

text \<open>
  \<^verbatim>\<open>getVideoAspectRatio\<close> (videos.ts 72-110, part_000 63-107, part_001 77-115): a
  non-zero exit of ffprobe throws; then \<^verbatim>\<open>JSON.parse\<close> may throw; a missing stream,
  or a width or height that is absent or zero, throws; otherwise the class.
\<close>

definition getVideoAspectRatio :: "env \<Rightarrow> string \<Rightarrow> error + string" where
  "getVideoAspectRatio e filePath =
     (let p = ffprobe e filePath in
      if ffprobe_exit p \<noteq> 0 then Inl (Error (''ffprobe failed: '' @ ffprobe_stderr p))
      else
        (case ffprobe_out p of
           NotJSON \<Rightarrow> Inl (RuntimeError ''SyntaxError'')
         | NoStream \<Rightarrow> Inl (Error ''Could not read video dimensions'')
         | Stream None _ \<Rightarrow> Inl (Error ''Could not read video dimensions'')
         | Stream (Some width) None \<Rightarrow> Inl (Error ''Could not read video dimensions'')
         | Stream (Some width) (Some height) \<Rightarrow>
             if width = 0 \<or> height = 0 then Inl (Error ''Could not read video dimensions'')
             else Inr (classify width height)))"

text \<open>
  \<^verbatim>\<open>processVideoForFastStart\<close> of videos.ts (113-131) and part_001 (117-141): the
  output path is the input path followed by \<^verbatim>\<open>.processed\<close>; whatever ffmpeg wrote
  is on disk afterwards; a non-zero exit throws \<^verbatim>\<open>Error("ffprobe failed")\<close>.
\<close>

definition processVideoForFastStart :: "env \<Rightarrow> string \<Rightarrow> world \<Rightarrow> (error + string) \<times> world" where
  "processVideoForFastStart e filePath w =
     (let newFilePath = filePath @ ''.processed'';
          r = ffmpeg e filePath newFilePath;
          w' = (case ffmpeg_output r of None \<Rightarrow> w | Some d \<Rightarrow> bun_write newFilePath d w)
      in if ffmpeg_exit r \<noteq> 0 then (Inl (Error ''ffprobe failed''), w')
         else (Inr newFilePath, w'))"

text \<open>
  \<^verbatim>\<open>processVideoForFastStart\<close> of part_000 (109-137). The template of line 110 has a
  double quote after the input path: the output path is the input path, the character
  \<open>CHR 0x22\<close>, then \<^verbatim>\<open>.processed.mp4\<close>.
\<close>

definition processVideoForFastStart_000 :: "env \<Rightarrow> string \<Rightarrow> world \<Rightarrow> (error + string) \<times> world" where
  "processVideoForFastStart_000 e filePath w =
     (let processedFilePath = filePath @ [CHR 0x22] @ ''.processed.mp4'';
          r = ffmpeg e filePath processedFilePath;
          w' = (case ffmpeg_output r of None \<Rightarrow> w | Some d \<Rightarrow> bun_write processedFilePath d w)
      in if ffmpeg_exit r \<noteq> 0 then (Inl (Error (''FFmpeg error: '' @ ffmpeg_stderr r)), w')
         else (Inr processedFilePath, w'))"

section \<open>The upload handlers\<close>

text \<open>
  \<^verbatim>\<open>handlerUploadVideo\<close> of src/api/videos.ts (10-69). The check \<^verbatim>\<open>if (!data)\<close> of
  line 39 is on an ArrayBuffer, which is never falsy, so it has no branch here.
\<close>

definition handlerUploadVideo :: "ApiConfig \<Rightarrow> env \<Rightarrow> BunRequest \<Rightarrow> world \<Rightarrow> (error + response) \<times> world" where
  "handlerUploadVideo cfg e req w =
     (case params_videoId req of
        None \<Rightarrow> (Inl (BadRequestError ''Invalid video ID''), w)
      | Some videoId \<Rightarrow>
     if videoId = [] then (Inl (BadRequestError ''Invalid video ID''), w) else
     (case getBearerToken e (headers req) of Inl err \<Rightarrow> (Inl err, w) | Inr token \<Rightarrow>
     (case validateJWT e token (jwtSecret cfg) of Inl err \<Rightarrow> (Inl err, w) | Inr uid \<Rightarrow>
     (case formData req of Inl err \<Rightarrow> (Inl err, w) | Inr form \<Rightarrow>
     (case form ''video'' of
        None \<Rightarrow> (Inl (BadRequestError ''Video file missing''), w)
      | Some (FormString _) \<Rightarrow> (Inl (BadRequestError ''Video file missing''), w)
      | Some (FormFile file) \<Rightarrow>
     if file_size file > 1 * 1024 * 1024 * 1024
     then (Inl (BadRequestError ''Video file exceeds the maximum allowed size of 1GB''), w) else
     (let mediaType = file_type file in
     if mediaType \<noteq> ''video/mp4'' then (Inl (BadRequestError ''Video should be video/mp4''), w) else
     (case getVideo (db w) videoId of
        None \<Rightarrow> (Inl (NotFoundError ''Couldn't find video''), w)
      | Some video \<Rightarrow>
     if userID video \<noteq> uid
     then (Inl (UserForbiddenError ''Not authorized to update this video''), w) else
     (let ext = (case splitSlash mediaType of _ # x # _ \<Rightarrow> x | _ \<Rightarrow> ''undefined'');
          fileName = randomBytes32 e;
          key = fileName @ ''.'' @ ext;
          filePath = path_join [assetsRoot cfg, key];
          w1 = bun_write filePath (file_data file) w
      in
     (case getVideoAspectRatio e filePath of Inl err \<Rightarrow> (Inl err, w1) | Inr aspectRatio \<Rightarrow>
     (let s3FilePath = path_join [assetsRoot cfg, aspectRatio, ''/'', key] in
     (case processVideoForFastStart e filePath w1 of
        (Inl err, w2) \<Rightarrow> (Inl err, w2)
      | (Inr processedFilePath, w2) \<Rightarrow>
     (case s3_write e s3FilePath processedFilePath None w2 of
        (Inl err, w3) \<Rightarrow> (Inl err, w3)
      | (Inr _, w3) \<Rightarrow>
     (let video' = video\<lparr>videoURL := Some (''https://'' @ s3Bucket cfg @ ''.s3.'' @ s3Region cfg
                                              @ ''.amazonaws.com/'' @ s3FilePath)\<rparr>;
          w4 = w3\<lparr>db := updateVideo (db w3) video'\<rparr>
      in
     (case file_delete processedFilePath w4 of
        (Inl err, w5) \<Rightarrow> (Inl err, w5)
      | (Inr _, w5) \<Rightarrow> (Inr (respondWithJSON 200 video'), w5)))))))))))))))"

text \<open>
  \<^verbatim>\<open>handlerUploadVideo\<close> of part_000 (12-61): the record is looked up and the owner
  checked before the form is read; the temporary path and the storage key are built
  from the video identifier; \<^verbatim>\<open>1 << 30\<close> is \<open>2 ^ 30\<close>. The two \<^verbatim>\<open>rm\<close> calls of
  lines 56-59 remove the buffered file and the path
  \<^verbatim>\<open>${tempFilePath}.processed.mp4\<close>.
\<close>

definition handlerUploadVideo_000 :: "ApiConfig \<Rightarrow> env \<Rightarrow> BunRequest \<Rightarrow> world \<Rightarrow> (error + response) \<times> world" where
  "handlerUploadVideo_000 cfg e req w =
     (let MAX_UPLOAD_SIZE = (2::nat) ^ 30 in
     (case params_videoId req of
        None \<Rightarrow> (Inl (BadRequestError ''Invalid video ID''), w)
      | Some videoId \<Rightarrow>
     if videoId = [] then (Inl (BadRequestError ''Invalid video ID''), w) else
     (case getBearerToken e (headers req) of Inl err \<Rightarrow> (Inl err, w) | Inr token \<Rightarrow>
     (case validateJWT e token (jwtSecret cfg) of Inl err \<Rightarrow> (Inl err, w) | Inr uid \<Rightarrow>
     (case getVideo (db w) videoId of
        None \<Rightarrow> (Inl (NotFoundError ''Couldn't find video''), w)
      | Some video \<Rightarrow>
     if userID video \<noteq> uid
     then (Inl (UserForbiddenError ''Not authorized to update this video''), w) else
     (case formData req of Inl err \<Rightarrow> (Inl err, w) | Inr form \<Rightarrow>
     (case form ''video'' of
        None \<Rightarrow> (Inl (BadRequestError ''Video file missing''), w)
      | Some (FormString _) \<Rightarrow> (Inl (BadRequestError ''Video file missing''), w)
      | Some (FormFile file) \<Rightarrow>
     if file_size file > MAX_UPLOAD_SIZE
     then (Inl (BadRequestError ''File exceeds size limit (1GB)''), w) else
     if file_type file \<noteq> ''video/mp4''
     then (Inl (BadRequestError ''Invalid file type, only MP4 is allowed''), w) else
     (let tempFilePath = path_join [''/tmp'', videoId @ ''.mp4''];
          w1 = bun_write tempFilePath (file_data file) w
      in
     (case getVideoAspectRatio e tempFilePath of Inl err \<Rightarrow> (Inl err, w1) | Inr aspectRatio \<Rightarrow>
     (case processVideoForFastStart_000 e tempFilePath w1 of
        (Inl err, w2) \<Rightarrow> (Inl err, w2)
      | (Inr processedFilePath, w2) \<Rightarrow>
     (let key = aspectRatio @ ''/'' @ videoId @ ''.mp4'' in
     (case uploadVideoToS3 e key processedFilePath ''video/mp4'' w2 of
        (Inl err, w3) \<Rightarrow> (Inl err, w3)
      | (Inr _, w3) \<Rightarrow>
     (let video' = video\<lparr>videoURL := Some (s3CfDistribution cfg @ ''/'' @ key)\<rparr>;
          w4 = w3\<lparr>db := updateVideo (db w3) video'\<rparr>;
          w5 = rm_force (tempFilePath @ ''.processed.mp4'') (rm_force tempFilePath w4)
      in (Inr (respondWithJSON 200 video'), w5))))))))))))))"

text \<open>
  \<^verbatim>\<open>handlerUploadVideo\<close> of part_001 (11-75): as in videos.ts up to the probe; the
  key is the class, a slash and the random file name; the processed file and then the
  buffered file are deleted.
\<close>

definition handlerUploadVideo_001 :: "ApiConfig \<Rightarrow> env \<Rightarrow> BunRequest \<Rightarrow> world \<Rightarrow> (error + response) \<times> world" where
  "handlerUploadVideo_001 cfg e req w =
     (case params_videoId req of
        None \<Rightarrow> (Inl (BadRequestError ''Invalid video ID''), w)
      | Some videoId \<Rightarrow>
     if videoId = [] then (Inl (BadRequestError ''Invalid video ID''), w) else
     (case getBearerToken e (headers req) of Inl err \<Rightarrow> (Inl err, w) | Inr token \<Rightarrow>
     (case validateJWT e token (jwtSecret cfg) of Inl err \<Rightarrow> (Inl err, w) | Inr uid \<Rightarrow>
     (case formData req of Inl err \<Rightarrow> (Inl err, w) | Inr form \<Rightarrow>
     (case form ''video'' of
        None \<Rightarrow> (Inl (BadRequestError ''Video file missing''), w)
      | Some (FormString _) \<Rightarrow> (Inl (BadRequestError ''Video file missing''), w)
      | Some (FormFile file) \<Rightarrow>
     if file_size file > 1 * 1024 * 1024 * 1024
     then (Inl (BadRequestError ''Video file exceeds the maximum allowed size of 1GB''), w) else
     (let mediaType = file_type file in
     if mediaType \<noteq> ''video/mp4'' then (Inl (BadRequestError ''Video should be video/mp4''), w) else
     (case getVideo (db w) videoId of
        None \<Rightarrow> (Inl (NotFoundError ''Couldn't find video''), w)
      | Some video \<Rightarrow>
     if userID video \<noteq> uid
     then (Inl (UserForbiddenError ''Not authorized to update this video''), w) else
     (let ext = (case splitSlash mediaType of _ # x # _ \<Rightarrow> x | _ \<Rightarrow> ''undefined'');
          fileName = randomBytes32 e;
          key = fileName @ ''.'' @ ext;
          filePath = path_join [assetsRoot cfg, key];
          w1 = bun_write filePath (file_data file) w
      in
     (case getVideoAspectRatio e filePath of Inl err \<Rightarrow> (Inl err, w1) | Inr aspectRatio \<Rightarrow>
     (let s3Key = aspectRatio @ ''/'' @ key in
     (case processVideoForFastStart e filePath w1 of
        (Inl err, w2) \<Rightarrow> (Inl err, w2)
      | (Inr processedFilePath, w2) \<Rightarrow>
     (case s3_write e s3Key processedFilePath (Some mediaType) w2 of
        (Inl err, w3) \<Rightarrow> (Inl err, w3)
      | (Inr _, w3) \<Rightarrow>
     (let video' = video\<lparr>videoURL := Some (''https://'' @ s3CfDistribution cfg @ ''/'' @ s3Key)\<rparr>;
          w4 = w3\<lparr>db := updateVideo (db w3) video'\<rparr>
      in
     (case file_delete processedFilePath w4 of
        (Inl err, w5) \<Rightarrow> (Inl err, w5)
      | (Inr _, w5) \<Rightarrow>
     (case file_delete filePath w5 of
        (Inl err, w6) \<Rightarrow> (Inl err, w6)
      | (Inr _, w6) \<Rightarrow> (Inr (respondWithJSON 200 video'), w6))))))))))))))))"

section \<open>The thumbnail handlers\<close>



section \<open>Conditions on a request\<close>

text \<open>
  The names of the conditions that the checks of the handlers test: the credential
  resolves to the user \<open>uid\<close>; the form has a \<^verbatim>\<open>File\<close> under \<^verbatim>\<open>video\<close>; and every
  check of \<^verbatim>\<open>handlerUploadVideo\<close> passes, for the video \<open>v\<close> stored under the
  route's identifier and the file \<open>f\<close>.
\<close>

definition authenticatedAs :: "ApiConfig \<Rightarrow> env \<Rightarrow> BunRequest \<Rightarrow> string \<Rightarrow> bool" where
  "authenticatedAs cfg e req uid =
     (case getBearerToken e (headers req) of
        Inl _ \<Rightarrow> False
      | Inr token \<Rightarrow> validateJWT e token (jwtSecret cfg) = Inr uid)"

definition videoField :: "BunRequest \<Rightarrow> File option" where
  "videoField req =
     (case formData req of
        Inl _ \<Rightarrow> None
      | Inr form \<Rightarrow>
          (case form ''video'' of
             None \<Rightarrow> None
           | Some (FormString _) \<Rightarrow> None
           | Some (FormFile file) \<Rightarrow> Some file))"

definition validUpload :: "ApiConfig \<Rightarrow> env \<Rightarrow> BunRequest \<Rightarrow> world \<Rightarrow> string \<Rightarrow> Video \<Rightarrow> File \<Rightarrow> bool" where
  "validUpload cfg e req w vid v f =
     (params_videoId req = Some vid \<and> vid \<noteq> [] \<and> authenticatedAs cfg e req (userID v) \<and>
      getVideo (db w) vid = Some v \<and> videoField req = Some f \<and>
      file_size f \<le> 2 ^ 30 \<and> file_type f = ''video/mp4'')"

section \<open>A concrete configuration, requests and tools\<close>

definition cfg0 :: ApiConfig where
  "cfg0 = \<lparr>jwtSecret = ''secret'', platform = ''dev'', filepathRoot = ''./app'',
           assetsRoot = ''./assets'', s3Bucket = ''tubely'', s3Region = ''us-east-1'',
           s3CfDistribution = ''https://d1.cloudfront.net'', port = ''8091''\<rparr>"

text \<open>The same with the distribution given as a host name, as part_001 reads it.\<close>

definition cfg1 :: ApiConfig where
  "cfg1 = cfg0\<lparr>s3CfDistribution := ''d1.cloudfront.net''\<rparr>"

text \<open>
  Tools that all succeed on a 1280 by 720 video: the token \<^verbatim>\<open>alice-token\<close> is
  alice's and \<^verbatim>\<open>bob-token\<close> is bob's.
\<close>

definition env0 :: env where
  "env0 = \<lparr>getBearerToken = (\<lambda>h. case h ''Authorization'' of
                                   None \<Rightarrow> Inl (BadRequestError ''Malformed authorization header'')
                                 | Some t \<Rightarrow> Inr t),
           validateJWT = (\<lambda>tok secret. if tok = ''alice-token'' then Inr ''alice''
                                       else if tok = ''bob-token'' then Inr ''bob''
                                       else Inl (Error ''Invalid token'')),
           randomBytes32 = ''r4nd0m'',
           ffprobe = (\<lambda>p. \<lparr>ffprobe_exit = 0, ffprobe_stderr = [],
                            ffprobe_out = Stream (Some 1280) (Some 720)\<rparr>),
           ffmpeg = (\<lambda>i out. \<lparr>ffmpeg_exit = 0, ffmpeg_stderr = [], ffmpeg_output = Some [7, 7]\<rparr>),
           s3_error = (\<lambda>k. None)\<rparr>"

text \<open>The same tools in a run that draws another random name.\<close>

definition env1 :: env where
  "env1 = env0\<lparr>randomBytes32 := ''0th3r''\<rparr>"

text \<open>The same tools, but ffmpeg exits with 1 and writes nothing.\<close>

definition env_remux_fails :: env where
  "env_remux_fails =
     env0\<lparr>ffmpeg := (\<lambda>i out. \<lparr>ffmpeg_exit = 1, ffmpeg_stderr = ''moov atom not found'',
                                ffmpeg_output = None\<rparr>)\<rparr>"

text \<open>The same tools, but ffprobe exits with 1.\<close>

definition env_probe_fails :: env where
  "env_probe_fails =
     env0\<lparr>ffprobe := (\<lambda>p. \<lparr>ffprobe_exit = 1, ffprobe_stderr = ''no such file'',
                             ffprobe_out = NotJSON\<rparr>)\<rparr>"

definition mp4 :: "bytes \<Rightarrow> form_value" where
  "mp4 d = FormFile \<lparr>file_type = ''video/mp4'', file_data = d\<rparr>"

text \<open>Alice uploads three bytes for her video \<^verbatim>\<open>v1\<close>.\<close>

definition req0 :: BunRequest where
  "req0 = \<lparr>params_videoId = Some ''v1'',
           headers = [''Authorization'' \<mapsto> ''alice-token''],
           formData = Inr [''video'' \<mapsto> mp4 [1, 2, 3]]\<rparr>"

text \<open>Bob, who does not own \<^verbatim>\<open>v1\<close>, sends the same upload, and one with no file.\<close>

definition req_bob :: BunRequest where
  "req_bob = req0\<lparr>headers := [''Authorization'' \<mapsto> ''bob-token'']\<rparr>"

definition req_bob_no_file :: BunRequest where
  "req_bob_no_file = req_bob\<lparr>formData := Inr Map.empty\<rparr>"

text \<open>
  Alice uploads \<open>2 ^ 30 + 1\<close> bytes for \<^verbatim>\<open>v1\<close>, the same for a video \<^verbatim>\<open>v9\<close> that
  does not exist, and exactly \<open>2 ^ 30\<close> bytes for \<^verbatim>\<open>v1\<close>.
\<close>

definition req_big :: BunRequest where
  "req_big = req0\<lparr>formData := Inr [''video'' \<mapsto> mp4 (replicate (2 ^ 30 + 1) 0)]\<rparr>"

definition req_big_unknown :: BunRequest where
  "req_big_unknown = req_big\<lparr>params_videoId := Some ''v9''\<rparr>"

definition req_limit :: BunRequest where
  "req_limit = req0\<lparr>formData := Inr [''video'' \<mapsto> mp4 (replicate (2 ^ 30) 0)]\<rparr>"

definition video1 :: Video where
  "video1 = \<lparr>videoID = ''v1'', userID = ''alice'', videoURL = None, thumbnailURL = None\<rparr>"

text \<open>The world at start: one video, nothing on disk, an empty bucket, no thumbnail.\<close>

definition w0 :: world where
  "w0 = \<lparr>db = [video1], disk = Map.empty, s3 = Map.empty, videoThumbnails = Map.empty\<rparr>"

text \<open>Alice uploads a two-byte PNG thumbnail for \<^verbatim>\<open>v1\<close>.\<close>

definition req_thumb :: BunRequest where
  "req_thumb = req0\<lparr>formData := Inr [''thumbnail'' \<mapsto>
                 FormFile \<lparr>file_type = ''image/png'', file_data = [5, 5]\<rparr>]\<rparr>"

section \<open>Sequences of thumbnail uploads\<close>


text \<open>Every definition that a concrete run unfolds.\<close>

lemmas run_defs =
  cfg0_def cfg1_def env0_def env1_def env_remux_fails_def env_probe_fails_def mp4_def req0_def
  req_bob_def req_bob_no_file_def req_big_def req_big_unknown_def req_limit_def req_thumb_def
  video1_def w0_def
  file_size_def getVideo_def updateVideo_def s3_write_def uploadVideoToS3_def rm_force_def
  file_delete_def bun_write_def respondWithJSON_def classify_def getVideoAspectRatio_def
  processVideoForFastStart_def processVideoForFastStart_000_def path_join_def path_normalize_def
  authenticatedAs_def videoField_def validUpload_def Let_def

section \<open>The aspect classifier\<close>

lemma classify_floor:
  "height \<noteq> 0 \<Longrightarrow>
   classify width height =
     (if \<lfloor>real_of_int width / real_of_int height\<rfloor> = 1 then ''landscape''
      else if \<lfloor>real_of_int width / real_of_int height\<rfloor> = 0 then ''portrait'' else ''other'')"
  by (simp add: classify_def)

lemma floor_one_iff: "(\<lfloor>r::real\<rfloor> = 1) = (1 \<le> r \<and> r < 2)"
  by (auto simp: floor_eq_iff)

lemma floor_zero_iff: "(\<lfloor>r::real\<rfloor> = 0) = (0 \<le> r \<and> r < 1)"
  by (auto simp: floor_eq_iff)

text \<open>
  C3, as the code has it. For a positive height, a ratio width/height in [1, 2) is
  landscape, a ratio in [0, 1) is portrait, and every other ratio (negative, or at
  least 2) is other. A square video has ratio 1 and is landscape:
  classify(16, 9) = landscape, classify(9, 16) = portrait, classify(1, 1) = landscape.
\<close>

theorem classify_partition:
  assumes "0 < height"
  shows
  "(1 \<le> real_of_int width / real_of_int height \<and> real_of_int width / real_of_int height < 2
      \<longrightarrow> classify width height = ''landscape'') \<and>
   (0 \<le> real_of_int width / real_of_int height \<and> real_of_int width / real_of_int height < 1
      \<longrightarrow> classify width height = ''portrait'') \<and>
   (real_of_int width / real_of_int height < 0 \<or> 2 \<le> real_of_int width / real_of_int height
      \<longrightarrow> classify width height = ''other'') \<and>
   classify 16 9 = ''landscape'' \<and> classify 9 16 = ''portrait'' \<and> classify 1 1 = ''landscape''"
proof -
  define r where "r = real_of_int width / real_of_int height"
  have c: "classify width height =
      (if 1 \<le> r \<and> r < 2 then ''landscape'' else if 0 \<le> r \<and> r < 1 then ''portrait'' else ''other'')"
    using assms unfolding r_def by (simp only: classify_floor floor_one_iff floor_zero_iff)
  have land: "1 \<le> r \<and> r < 2 \<longrightarrow> classify width height = ''landscape''"
    by (simp add: c)
  have port: "0 \<le> r \<and> r < 1 \<longrightarrow> classify width height = ''portrait''"
    by (simp add: c)
  have oth: "r < 0 \<or> 2 \<le> r \<longrightarrow> classify width height = ''other''"
    by (auto simp: c)
  have ex: "classify 16 9 = ''landscape'' \<and> classify 9 16 = ''portrait'' \<and> classify 1 1 = ''landscape''"
    by (simp add: classify_def)
  from land port oth ex show ?thesis unfolding r_def by blast
qed

text \<open>
  Witness of C3: 3 by 2 is landscape, 2 by 3 is portrait, 5 by 2 and -3 by 2 are other.
\<close>

theorem classify_partition_witness:
  "classify 3 2 = ''landscape'' \<and> classify 2 3 = ''portrait'' \<and> classify 5 2 = ''other'' \<and>
   classify (- 3) 2 = ''other''"
  using classify_partition [of 2 3] classify_partition [of 3 2] classify_partition [of 2 5]
    classify_partition [of 2 "- 3"]
  by simp

text \<open>
  Counterexample to C3 as stated: a square video is classified landscape, not other.
\<close>

theorem classify_square_counterexample:
  "classify 1 1 = ''landscape'' \<and> classify 1 1 \<noteq> ''other''"
  by (simp add: classify_def)

text \<open>
  C9. For a positive height, classify returns one of landscape, portrait and other,
  and scaling width and height by the same positive factor does not change the class;
  more generally, two videos of positive height with the same ratio width/height have
  the same class.
\<close>

theorem classify_scale_invariant:
  "0 < height \<Longrightarrow> 0 < k \<Longrightarrow>
   classify width height \<in> {''landscape'', ''portrait'', ''other''} \<and>
   classify (k * width) (k * height) = classify width height \<and>
   (0 < height' \<and>
    real_of_int width' / real_of_int height' = real_of_int width / real_of_int height
      \<longrightarrow> classify width' height' = classify width height)"
  by (simp add: classify_def)

text \<open>
  Witness of C9: 16 by 9 scaled by 80 is 1280 by 720, and 32 by 18 has the ratio of
  16 by 9.
\<close>

theorem classify_scale_invariant_witness:
  "classify 16 9 \<in> {''landscape'', ''portrait'', ''other''} \<and>
   classify (80 * 16) (80 * 9) = classify 16 9 \<and>
   classify 32 18 = classify 16 9"
  using classify_scale_invariant [of 9 80 16 18 32] by simp

section \<open>The steps of a run\<close>

lemmas step_defs =
  uploadVideoToS3_def s3_write_def file_delete_def rm_force_def bun_write_def
  processVideoForFastStart_def processVideoForFastStart_000_def respondWithJSON_def

lemmas cond_defs = validUpload_def authenticatedAs_def videoField_def

lemmas all_splits = option.splits sum.splits form_value.splits prod.splits if_splits


lemma getVideoAspectRatio_error:
  "getVideoAspectRatio e p = Inl err \<Longrightarrow> (\<exists>msg. err = Error msg \<or> err = RuntimeError msg)"
  by (auto simp: getVideoAspectRatio_def Let_def
           split: if_splits ffprobe_stdout.splits option.splits)

lemma getVideo_videoID: "getVideo rows i = Some v \<Longrightarrow> videoID v = i"
  by (auto simp: getVideo_def find_Some_iff)

lemma getVideo_updateVideo:
  "getVideo rows i = Some v \<Longrightarrow> videoID v' = i \<Longrightarrow> getVideo (updateVideo rows v') i = Some v'"
  by (induction rows) (auto simp: getVideo_def updateVideo_def split: if_splits)

text \<open>What a successful run of each revision has done.\<close>

lemma handlerUploadVideo_000_success:
  assumes "handlerUploadVideo_000 cfg e req w = (Inr resp, w')"
  obtains vid v f ar body where
    "validUpload cfg e req w vid v f"
    "getVideoAspectRatio e (path_join [''/tmp'', vid @ ''.mp4'']) = Inr ar"
    "resp = JSONResponse 200
       (v\<lparr>videoURL := Some (s3CfDistribution cfg @ ''/'' @ ar @ ''/'' @ vid @ ''.mp4'')\<rparr>)"
    "s3 w' = (s3 w)(ar @ ''/'' @ vid @ ''.mp4''
                \<mapsto> \<lparr>s3_body = body, s3_type = Some ''video/mp4''\<rparr>)"
    "db w' = updateVideo (db w)
       (v\<lparr>videoURL := Some (s3CfDistribution cfg @ ''/'' @ ar @ ''/'' @ vid @ ''.mp4'')\<rparr>)"
  using assms
  by (auto simp: handlerUploadVideo_000_def Let_def step_defs cond_defs split: all_splits)

lemma handlerUploadVideo_success:
  assumes "handlerUploadVideo cfg e req w = (Inr resp, w')"
  obtains vid v f ar body where
    "validUpload cfg e req w vid v f"
    "getVideoAspectRatio e (path_join [assetsRoot cfg, randomBytes32 e @ ''.mp4'']) = Inr ar"
    "resp = JSONResponse 200
       (v\<lparr>videoURL := Some (''https://'' @ s3Bucket cfg @ ''.s3.'' @ s3Region cfg
          @ ''.amazonaws.com/'' @ path_join [assetsRoot cfg, ar, ''/'', randomBytes32 e @ ''.mp4''])\<rparr>)"
    "s3 w' = (s3 w)(path_join [assetsRoot cfg, ar, ''/'', randomBytes32 e @ ''.mp4'']
                \<mapsto> \<lparr>s3_body = body, s3_type = None\<rparr>)"
    "db w' = updateVideo (db w)
       (v\<lparr>videoURL := Some (''https://'' @ s3Bucket cfg @ ''.s3.'' @ s3Region cfg
          @ ''.amazonaws.com/'' @ path_join [assetsRoot cfg, ar, ''/'', randomBytes32 e @ ''.mp4''])\<rparr>)"
  using assms
  by (auto simp: handlerUploadVideo_def Let_def step_defs cond_defs split: all_splits)

lemma handlerUploadVideo_001_success:
  assumes "handlerUploadVideo_001 cfg e req w = (Inr resp, w')"
  obtains vid v f ar body where
    "validUpload cfg e req w vid v f"
    "getVideoAspectRatio e (path_join [assetsRoot cfg, randomBytes32 e @ ''.mp4'']) = Inr ar"
    "resp = JSONResponse 200
       (v\<lparr>videoURL := Some (''https://'' @ s3CfDistribution cfg @ ''/''
          @ ar @ ''/'' @ randomBytes32 e @ ''.mp4'')\<rparr>)"
    "s3 w' = (s3 w)(ar @ ''/'' @ randomBytes32 e @ ''.mp4''
                \<mapsto> \<lparr>s3_body = body, s3_type = Some ''video/mp4''\<rparr>)"
    "db w' = updateVideo (db w)
       (v\<lparr>videoURL := Some (''https://'' @ s3CfDistribution cfg @ ''/''
          @ ar @ ''/'' @ randomBytes32 e @ ''.mp4'')\<rparr>)"
  using assms
  by (auto simp: handlerUploadVideo_001_def Let_def step_defs cond_defs split: all_splits)

text \<open>The concrete runs used below.\<close>

lemma req0_valid:
  "validUpload cfg0 env_remux_fails req0 w0 ''v1'' video1
     \<lparr>file_type = ''video/mp4'', file_data = [1, 2, 3]\<rparr>"
  "validUpload cfg0 env_probe_fails req0 w0 ''v1'' video1
     \<lparr>file_type = ''video/mp4'', file_data = [1, 2, 3]\<rparr>"
  "validUpload cfg0 env0 req0 w0 ''v1'' video1
     \<lparr>file_type = ''video/mp4'', file_data = [1, 2, 3]\<rparr>"
  by (simp_all add: run_defs)

lemma tmp_path_v1: "path_join [''/tmp'', ''v1'' @ ''.mp4''] = ''/tmp/v1.mp4''"
  by (simp add: run_defs)

lemma asset_path_cfg1:
  "path_join [assetsRoot cfg1, randomBytes32 env0 @ ''.mp4''] = ''assets/r4nd0m.mp4''"
  by (simp add: run_defs)

lemma asset_path_r4nd0m:
  "path_join [assetsRoot cfg0, randomBytes32 env_remux_fails @ ''.mp4''] = ''assets/r4nd0m.mp4''"
  "path_join [assetsRoot cfg0, randomBytes32 env_probe_fails @ ''.mp4''] = ''assets/r4nd0m.mp4''"
  "path_join [assetsRoot cfg0, randomBytes32 env0 @ ''.mp4''] = ''assets/r4nd0m.mp4''"
  by (simp_all add: run_defs)

lemma validUpload_id: "validUpload cfg e req w vid v f \<Longrightarrow> params_videoId req = Some vid"
  by (simp add: validUpload_def)


lemma run0_000:
  "handlerUploadVideo_000 cfg0 env0 req0 w0 =
     (Inr (JSONResponse 200 (video1\<lparr>videoURL := Some ''https://d1.cloudfront.net/landscape/v1.mp4''\<rparr>)),
      snd (handlerUploadVideo_000 cfg0 env0 req0 w0))"
  by (simp add: run_defs handlerUploadVideo_000_def)

lemma run0_ts:
  "handlerUploadVideo cfg0 env0 req0 w0 =
     (Inr (JSONResponse 200 (video1\<lparr>videoURL :=
        Some ''https://tubely.s3.us-east-1.amazonaws.com/assets/landscape/r4nd0m.mp4''\<rparr>)),
      snd (handlerUploadVideo cfg0 env0 req0 w0))"
  by (simp add: run_defs handlerUploadVideo_def)

lemma run0_001:
  "handlerUploadVideo_001 cfg1 env0 req0 w0 =
     (Inr (JSONResponse 200 (video1\<lparr>videoURL :=
        Some ''https://d1.cloudfront.net/landscape/r4nd0m.mp4''\<rparr>)),
      snd (handlerUploadVideo_001 cfg1 env0 req0 w0))"
  by (simp add: run_defs handlerUploadVideo_001_def)



lemma validUpload_video: "validUpload cfg e req w vid v f \<Longrightarrow> getVideo (db w) vid = Some v"
  by (simp add: validUpload_def)

lemma stored_after_update:
  assumes "validUpload cfg e req w vid v f"
  shows "getVideo (updateVideo (db w) (v\<lparr>videoURL := u\<rparr>)) vid = Some (v\<lparr>videoURL := u\<rparr>)"
proof -
  from assms have g: "getVideo (db w) vid = Some v"
    by (rule validUpload_video)
  then have "videoID (v\<lparr>videoURL := u\<rparr>) = vid"
    by (simp add: getVideo_videoID)
  with g show ?thesis
    by (rule getVideo_updateVideo)
qed

section \<open>Failure of the remux step\<close>

text \<open>
  C1, as the code has it. When a request has passed every check, the probe has given a
  class and ffmpeg exits with a non-zero code, each revision of handlerUploadVideo
  throws the error of processVideoForFastStart, the bucket and the video records are as
  before, and the buffered upload is still on disk at its temporary path: no revision
  deletes it on this path.
\<close>

theorem remux_failure_keeps_buffered_file:
  assumes "validUpload cfg e req w vid v f"
  shows
  "(let p = path_join [''/tmp'', vid @ ''.mp4''];
        r = ffmpeg e p (p @ [CHR 0x22] @ ''.processed.mp4'');
        out = handlerUploadVideo_000 cfg e req w
    in getVideoAspectRatio e p = Inr ar \<and> ffmpeg_exit r \<noteq> 0 \<longrightarrow>
         fst out = Inl (Error (''FFmpeg error: '' @ ffmpeg_stderr r)) \<and>
         s3 (snd out) = s3 w \<and> db (snd out) = db w \<and>
         disk (snd out) p = Some (file_data f)) \<and>
   (let p = path_join [assetsRoot cfg, randomBytes32 e @ ''.mp4''];
        r = ffmpeg e p (p @ ''.processed'');
        out = handlerUploadVideo cfg e req w
    in getVideoAspectRatio e p = Inr ar \<and> ffmpeg_exit r \<noteq> 0 \<longrightarrow>
         fst out = Inl (Error ''ffprobe failed'') \<and>
         s3 (snd out) = s3 w \<and> db (snd out) = db w \<and>
         disk (snd out) p = Some (file_data f)) \<and>
   (let p = path_join [assetsRoot cfg, randomBytes32 e @ ''.mp4''];
        r = ffmpeg e p (p @ ''.processed'');
        out = handlerUploadVideo_001 cfg e req w
    in getVideoAspectRatio e p = Inr ar \<and> ffmpeg_exit r \<noteq> 0 \<longrightarrow>
         fst out = Inl (Error ''ffprobe failed'') \<and>
         s3 (snd out) = s3 w \<and> db (snd out) = db w \<and>
         disk (snd out) p = Some (file_data f))"
  using assms
  apply (intro conjI)
  subgoal by (auto simp: handlerUploadVideo_000_def Let_def step_defs cond_defs split: all_splits)
  subgoal by (auto simp: handlerUploadVideo_def Let_def step_defs cond_defs split: all_splits)
  subgoal by (auto simp: handlerUploadVideo_001_def Let_def step_defs cond_defs split: all_splits)
  done

text \<open>
  Witness of C1: alice's upload for v1 with an ffmpeg that exits with 1.
\<close>

theorem remux_failure_keeps_buffered_file_witness:
  "validUpload cfg0 env_remux_fails req0 w0 ''v1'' video1
     \<lparr>file_type = ''video/mp4'', file_data = [1, 2, 3]\<rparr> \<and>
   fst (handlerUploadVideo_000 cfg0 env_remux_fails req0 w0) =
     Inl (Error ''FFmpeg error: moov atom not found'') \<and>
   s3 (snd (handlerUploadVideo_000 cfg0 env_remux_fails req0 w0)) = s3 w0 \<and>
   db (snd (handlerUploadVideo_000 cfg0 env_remux_fails req0 w0)) = db w0 \<and>
   disk (snd (handlerUploadVideo_000 cfg0 env_remux_fails req0 w0)) ''/tmp/v1.mp4'' = Some [1, 2, 3] \<and>
   fst (handlerUploadVideo cfg0 env_remux_fails req0 w0) = Inl (Error ''ffprobe failed'') \<and>
   disk (snd (handlerUploadVideo cfg0 env_remux_fails req0 w0)) ''assets/r4nd0m.mp4'' = Some [1, 2, 3] \<and>
   fst (handlerUploadVideo_001 cfg0 env_remux_fails req0 w0) = Inl (Error ''ffprobe failed'') \<and>
   disk (snd (handlerUploadVideo_001 cfg0 env_remux_fails req0 w0)) ''assets/r4nd0m.mp4'' = Some [1, 2, 3]"
proof -
  have g: "getVideoAspectRatio env_remux_fails ''/tmp/v1.mp4'' = Inr ''landscape''"
          "getVideoAspectRatio env_remux_fails ''assets/r4nd0m.mp4'' = Inr ''landscape''"
    by (simp_all add: run_defs)
  have x: "ffmpeg_exit (ffmpeg env_remux_fails i out) = 1"
          "ffmpeg_stderr (ffmpeg env_remux_fails i out) = ''moov atom not found''" for i out
    by (simp_all add: run_defs)
  show ?thesis
    using remux_failure_keeps_buffered_file [OF req0_valid(1), of "''landscape''"] req0_valid(1)
    by (simp only: Let_def tmp_path_v1 asset_path_r4nd0m g x) simp
qed

text \<open>
  Counterexample to C1 as stated: in that run of part_000 the error propagates and the
  buffered file /tmp/v1.mp4 is still on disk.
\<close>

theorem remux_failure_counterexample:
  "fst (handlerUploadVideo_000 cfg0 env_remux_fails req0 w0) =
     Inl (Error ''FFmpeg error: moov atom not found'') \<and>
   disk (snd (handlerUploadVideo_000 cfg0 env_remux_fails req0 w0)) ''/tmp/v1.mp4'' = Some [1, 2, 3]"
  by (simp add: run_defs handlerUploadVideo_000_def)

section \<open>The video record on an error exit\<close>




section \<open>Temporary files after a successful run\<close>

text \<open>
  C5, evaluated on the code. After a successful run of part_000 the buffered file is
  gone, but the processed copy is still on disk: processVideoForFastStart wrote it at
  the temporary path followed by a double quote and .processed.mp4, and the handler
  removes the path without the quote. After a successful run of videos.ts the
  processed copy is gone and the buffered file is still on disk: the handler deletes
  only the processed file. After a successful run of part_001 both are gone.
\<close>

theorem temporary_files_left_behind:
  "(handlerUploadVideo_000 cfg e req w = (Inr resp, w') \<longrightarrow>
      (\<exists>vid. params_videoId req = Some vid \<and>
         disk w' (path_join [''/tmp'', vid @ ''.mp4'']) = None \<and>
         disk w' (path_join [''/tmp'', vid @ ''.mp4''] @ [CHR 0x22] @ ''.processed.mp4'') \<noteq> None)) \<and>
   (handlerUploadVideo cfg e req w = (Inr resp, w') \<longrightarrow>
      disk w' (path_join [assetsRoot cfg, randomBytes32 e @ ''.mp4'']) \<noteq> None \<and>
      disk w' (path_join [assetsRoot cfg, randomBytes32 e @ ''.mp4''] @ ''.processed'') = None) \<and>
   (handlerUploadVideo_001 cfg e req w = (Inr resp, w') \<longrightarrow>
      disk w' (path_join [assetsRoot cfg, randomBytes32 e @ ''.mp4'']) = None \<and>
      disk w' (path_join [assetsRoot cfg, randomBytes32 e @ ''.mp4''] @ ''.processed'') = None)"
  apply (intro conjI)
  subgoal by (auto simp: handlerUploadVideo_000_def Let_def step_defs split: all_splits)
  subgoal by (auto simp: handlerUploadVideo_def Let_def step_defs split: all_splits)
  subgoal by (auto simp: handlerUploadVideo_001_def Let_def step_defs split: all_splits)
  done

text \<open>Witness of C5: alice's upload for v1 succeeds in part_000 and in videos.ts.\<close>

theorem temporary_files_left_behind_witness:
  "params_videoId req0 = Some ''v1'' \<and>
   (\<exists>resp. fst (handlerUploadVideo_000 cfg0 env0 req0 w0) = Inr resp) \<and>
   disk (snd (handlerUploadVideo_000 cfg0 env0 req0 w0))
     (''/tmp/v1.mp4'' @ [CHR 0x22] @ ''.processed.mp4'') \<noteq> None \<and>
   (\<exists>resp. fst (handlerUploadVideo cfg0 env0 req0 w0) = Inr resp) \<and>
   disk (snd (handlerUploadVideo cfg0 env0 req0 w0)) ''assets/r4nd0m.mp4'' \<noteq> None \<and>
   (\<exists>resp. fst (handlerUploadVideo_001 cfg1 env0 req0 w0) = Inr resp) \<and>
   disk (snd (handlerUploadVideo_001 cfg1 env0 req0 w0)) ''assets/r4nd0m.mp4'' = None \<and>
   disk (snd (handlerUploadVideo_001 cfg1 env0 req0 w0)) (''assets/r4nd0m.mp4'' @ ''.processed'') = None"
proof -
  have v: "params_videoId req0 = Some ''v1''"
    by (simp add: run_defs)
  from temporary_files_left_behind [where cfg = cfg0 and e = env0 and req = req0 and w = w0
      and w' = "snd (handlerUploadVideo_000 cfg0 env0 req0 w0)"
      and resp = "JSONResponse 200 (video1\<lparr>videoURL := Some ''https://d1.cloudfront.net/landscape/v1.mp4''\<rparr>)"]
    run0_000 v
  have a: "disk (snd (handlerUploadVideo_000 cfg0 env0 req0 w0))
     (''/tmp/v1.mp4'' @ [CHR 0x22] @ ''.processed.mp4'') \<noteq> None"
    by (auto simp: tmp_path_v1 [simplified])
  from temporary_files_left_behind [where cfg = cfg0 and e = env0 and req = req0 and w = w0
      and w' = "snd (handlerUploadVideo cfg0 env0 req0 w0)"
      and resp = "JSONResponse 200 (video1\<lparr>videoURL :=
        Some ''https://tubely.s3.us-east-1.amazonaws.com/assets/landscape/r4nd0m.mp4''\<rparr>)"]
    run0_ts
  have b: "disk (snd (handlerUploadVideo cfg0 env0 req0 w0)) ''assets/r4nd0m.mp4'' \<noteq> None"
    by (simp only: asset_path_r4nd0m) blast
  have c: "\<exists>resp. fst (handlerUploadVideo_000 cfg0 env0 req0 w0) = Inr resp"
    by (subst run0_000) simp
  have d: "\<exists>resp. fst (handlerUploadVideo cfg0 env0 req0 w0) = Inr resp"
    by (subst run0_ts) simp
  from temporary_files_left_behind [where cfg = cfg1 and e = env0 and req = req0 and w = w0
      and w' = "snd (handlerUploadVideo_001 cfg1 env0 req0 w0)"
      and resp = "JSONResponse 200 (video1\<lparr>videoURL :=
        Some ''https://d1.cloudfront.net/landscape/r4nd0m.mp4''\<rparr>)"]
    run0_001
  have f: "disk (snd (handlerUploadVideo_001 cfg1 env0 req0 w0)) ''assets/r4nd0m.mp4'' = None \<and>
     disk (snd (handlerUploadVideo_001 cfg1 env0 req0 w0)) (''assets/r4nd0m.mp4'' @ ''.processed'') = None"
    by (simp only: asset_path_cfg1)
  have g: "\<exists>resp. fst (handlerUploadVideo_001 cfg1 env0 req0 w0) = Inr resp"
    by (subst run0_001) simp
  from v a b c d f g show ?thesis by blast
qed

section \<open>The size limit\<close>

text \<open>
  C6, as the code has it. A request whose video file has more than 2^30 bytes makes
  part_000 and videos.ts fail with the world unchanged, so before any temporary file
  is written. The error is BadRequestError when the checks that stand before the size
  check pass: in videos.ts a non-empty identifier and a valid credential, in part_000
  also an existing video owned by the user; otherwise it is the error of the earlier
  check. A file of exactly 2^30 bytes in an otherwise valid request never gives a
  BadRequestError.
\<close>

theorem oversized_upload_rejected_before_buffering:
  "(videoField req = Some f \<and> 2 ^ 30 < file_size f \<longrightarrow>
      (\<exists>err. handlerUploadVideo_000 cfg e req w = (Inl err, w)) \<and>
      (\<exists>err. handlerUploadVideo cfg e req w = (Inl err, w))) \<and>
   (videoField req = Some f \<and> 2 ^ 30 < file_size f \<and>
    params_videoId req = Some vid \<and> vid \<noteq> [] \<and> authenticatedAs cfg e req uid \<longrightarrow>
      handlerUploadVideo cfg e req w =
        (Inl (BadRequestError ''Video file exceeds the maximum allowed size of 1GB''), w)) \<and>
   (videoField req = Some f \<and> 2 ^ 30 < file_size f \<and>
    params_videoId req = Some vid \<and> vid \<noteq> [] \<and> authenticatedAs cfg e req uid \<and>
    getVideo (db w) vid = Some v \<and> userID v = uid \<longrightarrow>
      handlerUploadVideo_000 cfg e req w =
        (Inl (BadRequestError ''File exceeds size limit (1GB)''), w)) \<and>
   (validUpload cfg e req w vid v f \<and> file_size f = 2 ^ 30 \<longrightarrow>
      (\<forall>msg. fst (handlerUploadVideo_000 cfg e req w) \<noteq> Inl (BadRequestError msg)) \<and>
      (\<forall>msg. fst (handlerUploadVideo cfg e req w) \<noteq> Inl (BadRequestError msg)))"
  apply (intro conjI)
  subgoal by (auto simp: handlerUploadVideo_000_def handlerUploadVideo_def Let_def cond_defs
                   split: all_splits)
  subgoal by (auto simp: handlerUploadVideo_def Let_def cond_defs split: all_splits)
  subgoal by (auto simp: handlerUploadVideo_000_def Let_def cond_defs split: all_splits)
  subgoal by (auto simp: handlerUploadVideo_000_def handlerUploadVideo_def Let_def cond_defs step_defs
                   split: all_splits dest: getVideoAspectRatio_error)
  done

text \<open>
  Witness of C6: alice uploads 2^30 + 1 bytes for v1, and for the unknown v9, and
  exactly 2^30 bytes for v1.
\<close>

theorem oversized_upload_rejected_before_buffering_witness:
  "handlerUploadVideo cfg0 env0 req_big w0 =
     (Inl (BadRequestError ''Video file exceeds the maximum allowed size of 1GB''), w0) \<and>
   handlerUploadVideo_000 cfg0 env0 req_big w0 =
     (Inl (BadRequestError ''File exceeds size limit (1GB)''), w0) \<and>
   (\<exists>err. handlerUploadVideo_000 cfg0 env0 req_big_unknown w0 = (Inl err, w0)) \<and>
   (\<forall>msg. fst (handlerUploadVideo_000 cfg0 env0 req_limit w0) \<noteq> Inl (BadRequestError msg)) \<and>
   (\<forall>msg. fst (handlerUploadVideo cfg0 env0 req_limit w0) \<noteq> Inl (BadRequestError msg))"
proof -
  let ?big = "\<lparr>file_type = ''video/mp4'', file_data = replicate (2 ^ 30 + 1) 0\<rparr>"
  let ?lim = "\<lparr>file_type = ''video/mp4'', file_data = replicate (2 ^ 30) 0\<rparr>"
  have big: "videoField req_big = Some ?big \<and> 2 ^ 30 < file_size ?big \<and>
             params_videoId req_big = Some ''v1'' \<and> ''v1'' \<noteq> [] \<and>
             authenticatedAs cfg0 env0 req_big ''alice'' \<and>
             getVideo (db w0) ''v1'' = Some video1 \<and> userID video1 = ''alice''"
    by (simp add: run_defs)
  have unk: "videoField req_big_unknown = Some ?big \<and> 2 ^ 30 < file_size ?big"
    by (simp add: run_defs)
  have lim: "validUpload cfg0 env0 req_limit w0 ''v1'' video1 ?lim \<and> file_size ?lim = 2 ^ 30"
    by (simp add: run_defs)
  note a = oversized_upload_rejected_before_buffering [where cfg = cfg0 and e = env0 and w = w0
      and req = req_big and f = ?big and vid = "''v1''" and uid = "''alice''" and v = video1]
  note b = oversized_upload_rejected_before_buffering [where cfg = cfg0 and e = env0 and w = w0
      and req = req_big_unknown and f = ?big]
  note c = oversized_upload_rejected_before_buffering [where cfg = cfg0 and e = env0 and w = w0
      and req = req_limit and f = ?lim and vid = "''v1''" and v = video1]
  from a big have 1: "handlerUploadVideo cfg0 env0 req_big w0 =
     (Inl (BadRequestError ''Video file exceeds the maximum allowed size of 1GB''), w0)" by blast
  from a big have 2: "handlerUploadVideo_000 cfg0 env0 req_big w0 =
     (Inl (BadRequestError ''File exceeds size limit (1GB)''), w0)" by blast
  from b unk have 3: "\<exists>err. handlerUploadVideo_000 cfg0 env0 req_big_unknown w0 = (Inl err, w0)"
    by blast
  from c lim have 4: "\<forall>msg. fst (handlerUploadVideo_000 cfg0 env0 req_limit w0) \<noteq> Inl (BadRequestError msg)"
    by blast
  from c lim have 5: "\<forall>msg. fst (handlerUploadVideo cfg0 env0 req_limit w0) \<noteq> Inl (BadRequestError msg)"
    by blast
  from 1 2 3 4 5 show ?thesis by blast
qed

text \<open>
  Counterexample to C6 as stated: part_000 answers 2^30 + 1 bytes for a video that
  does not exist with NotFoundError, not with BadRequestError.
\<close>

theorem oversized_upload_counterexample:
  "videoField req_big_unknown =
     Some \<lparr>file_type = ''video/mp4'', file_data = replicate (2 ^ 30 + 1) 0\<rparr> \<and>
   2 ^ 30 < file_size \<lparr>file_type = ''video/mp4'', file_data = replicate (2 ^ 30 + 1) 0\<rparr> \<and>
   handlerUploadVideo_000 cfg0 env0 req_big_unknown w0 =
     (Inl (NotFoundError ''Couldn't find video''), w0)"
  by (simp add: run_defs handlerUploadVideo_000_def)

section \<open>The storage key\<close>




section \<open>The playback URL\<close>

text \<open>
  C7, as the code has it. After a successful run the record stored under the video
  identifier, which is also the record returned, has as playback URL a base address, a
  slash and the key under which this run wrote its object. In part_000 the base is
  cfg.s3CfDistribution; in videos.ts it is https://, the bucket, .s3., the region and
  .amazonaws.com, not the distribution; in part_001 it is https:// followed by
  cfg.s3CfDistribution.
\<close>

theorem playback_url_written:
  "(handlerUploadVideo_000 cfg e req w = (Inr resp, w') \<longrightarrow>
      (\<exists>vid v key obj. params_videoId req = Some vid \<and> s3 w' = (s3 w)(key \<mapsto> obj) \<and>
         resp = JSONResponse 200 v \<and> getVideo (db w') vid = Some v \<and>
         videoURL v = Some (s3CfDistribution cfg @ ''/'' @ key))) \<and>
   (handlerUploadVideo cfg e req w = (Inr resp, w') \<longrightarrow>
      (\<exists>vid v key obj. params_videoId req = Some vid \<and> s3 w' = (s3 w)(key \<mapsto> obj) \<and>
         resp = JSONResponse 200 v \<and> getVideo (db w') vid = Some v \<and>
         videoURL v = Some (''https://'' @ s3Bucket cfg @ ''.s3.'' @ s3Region cfg
                              @ ''.amazonaws.com'' @ ''/'' @ key))) \<and>
   (handlerUploadVideo_001 cfg e req w = (Inr resp, w') \<longrightarrow>
      (\<exists>vid v key obj. params_videoId req = Some vid \<and> s3 w' = (s3 w)(key \<mapsto> obj) \<and>
         resp = JSONResponse 200 v \<and> getVideo (db w') vid = Some v \<and>
         videoURL v = Some (''https://'' @ s3CfDistribution cfg @ ''/'' @ key)))"
proof (intro conjI impI)
  assume "handlerUploadVideo_000 cfg e req w = (Inr resp, w')"
  then obtain vid v f ar body where 1:
    "validUpload cfg e req w vid v f"
    "resp = JSONResponse 200
       (v\<lparr>videoURL := Some (s3CfDistribution cfg @ ''/'' @ ar @ ''/'' @ vid @ ''.mp4'')\<rparr>)"
    "s3 w' = (s3 w)(ar @ ''/'' @ vid @ ''.mp4''
                \<mapsto> \<lparr>s3_body = body, s3_type = Some ''video/mp4''\<rparr>)"
    "db w' = updateVideo (db w)
       (v\<lparr>videoURL := Some (s3CfDistribution cfg @ ''/'' @ ar @ ''/'' @ vid @ ''.mp4'')\<rparr>)"
    by (rule handlerUploadVideo_000_success)
  let ?v = "v\<lparr>videoURL := Some (s3CfDistribution cfg @ ''/'' @ ar @ ''/'' @ vid @ ''.mp4'')\<rparr>"
  have "getVideo (db w') vid = Some ?v"
    unfolding 1(4) using 1(1) by (rule stored_after_update)
  moreover have "videoURL ?v = Some (s3CfDistribution cfg @ ''/'' @ (ar @ ''/'' @ vid @ ''.mp4''))"
    by simp
  moreover note validUpload_id [OF 1(1)] 1(2) 1(3)
  ultimately show "\<exists>vid v key obj. params_videoId req = Some vid \<and> s3 w' = (s3 w)(key \<mapsto> obj) \<and>
         resp = JSONResponse 200 v \<and> getVideo (db w') vid = Some v \<and>
         videoURL v = Some (s3CfDistribution cfg @ ''/'' @ key)"
    by blast
next
  assume "handlerUploadVideo cfg e req w = (Inr resp, w')"
  then obtain vid v f ar body where 1:
    "validUpload cfg e req w vid v f"
    "resp = JSONResponse 200
       (v\<lparr>videoURL := Some (''https://'' @ s3Bucket cfg @ ''.s3.'' @ s3Region cfg
          @ ''.amazonaws.com/'' @ path_join [assetsRoot cfg, ar, ''/'', randomBytes32 e @ ''.mp4''])\<rparr>)"
    "s3 w' = (s3 w)(path_join [assetsRoot cfg, ar, ''/'', randomBytes32 e @ ''.mp4'']
                \<mapsto> \<lparr>s3_body = body, s3_type = None\<rparr>)"
    "db w' = updateVideo (db w)
       (v\<lparr>videoURL := Some (''https://'' @ s3Bucket cfg @ ''.s3.'' @ s3Region cfg
          @ ''.amazonaws.com/'' @ path_join [assetsRoot cfg, ar, ''/'', randomBytes32 e @ ''.mp4''])\<rparr>)"
    by (rule handlerUploadVideo_success)
  let ?k = "path_join [assetsRoot cfg, ar, ''/'', randomBytes32 e @ ''.mp4'']"
  let ?v = "v\<lparr>videoURL := Some (''https://'' @ s3Bucket cfg @ ''.s3.'' @ s3Region cfg
          @ ''.amazonaws.com/'' @ ?k)\<rparr>"
  have "getVideo (db w') vid = Some ?v"
    unfolding 1(4) using 1(1) by (rule stored_after_update)
  moreover have "videoURL ?v = Some (''https://'' @ s3Bucket cfg @ ''.s3.'' @ s3Region cfg
                              @ ''.amazonaws.com'' @ ''/'' @ ?k)"
    by simp
  moreover note validUpload_id [OF 1(1)] 1(2) 1(3)
  ultimately show "\<exists>vid v key obj. params_videoId req = Some vid \<and> s3 w' = (s3 w)(key \<mapsto> obj) \<and>
         resp = JSONResponse 200 v \<and> getVideo (db w') vid = Some v \<and>
         videoURL v = Some (''https://'' @ s3Bucket cfg @ ''.s3.'' @ s3Region cfg
                              @ ''.amazonaws.com'' @ ''/'' @ key)"
    by blast
next
  assume "handlerUploadVideo_001 cfg e req w = (Inr resp, w')"
  then obtain vid v f ar body where 1:
    "validUpload cfg e req w vid v f"
    "resp = JSONResponse 200
       (v\<lparr>videoURL := Some (''https://'' @ s3CfDistribution cfg @ ''/''
          @ ar @ ''/'' @ randomBytes32 e @ ''.mp4'')\<rparr>)"
    "s3 w' = (s3 w)(ar @ ''/'' @ randomBytes32 e @ ''.mp4''
                \<mapsto> \<lparr>s3_body = body, s3_type = Some ''video/mp4''\<rparr>)"
    "db w' = updateVideo (db w)
       (v\<lparr>videoURL := Some (''https://'' @ s3CfDistribution cfg @ ''/''
          @ ar @ ''/'' @ randomBytes32 e @ ''.mp4'')\<rparr>)"
    by (rule handlerUploadVideo_001_success)
  let ?v = "v\<lparr>videoURL := Some (''https://'' @ s3CfDistribution cfg @ ''/''
          @ ar @ ''/'' @ randomBytes32 e @ ''.mp4'')\<rparr>"
  have "getVideo (db w') vid = Some ?v"
    unfolding 1(4) using 1(1) by (rule stored_after_update)
  moreover have "videoURL ?v = Some (''https://'' @ s3CfDistribution cfg @ ''/''
          @ (ar @ ''/'' @ randomBytes32 e @ ''.mp4''))"
    by simp
  moreover note validUpload_id [OF 1(1)] 1(2) 1(3)
  ultimately show "\<exists>vid v key obj. params_videoId req = Some vid \<and> s3 w' = (s3 w)(key \<mapsto> obj) \<and>
         resp = JSONResponse 200 v \<and> getVideo (db w') vid = Some v \<and>
         videoURL v = Some (''https://'' @ s3CfDistribution cfg @ ''/'' @ key)"
    by blast
qed

text \<open>Witness of C7: alice's upload for v1 in part_000 and in videos.ts.\<close>

theorem playback_url_written_witness:
  "(\<exists>vid v key obj. params_videoId req0 = Some vid \<and>
      s3 (snd (handlerUploadVideo_000 cfg0 env0 req0 w0)) = (s3 w0)(key \<mapsto> obj) \<and>
      getVideo (db (snd (handlerUploadVideo_000 cfg0 env0 req0 w0))) vid = Some v \<and>
      videoURL v = Some (s3CfDistribution cfg0 @ ''/'' @ key)) \<and>
   (\<exists>vid v key obj. params_videoId req0 = Some vid \<and>
      s3 (snd (handlerUploadVideo cfg0 env0 req0 w0)) = (s3 w0)(key \<mapsto> obj) \<and>
      getVideo (db (snd (handlerUploadVideo cfg0 env0 req0 w0))) vid = Some v \<and>
      videoURL v = Some (''https://'' @ s3Bucket cfg0 @ ''.s3.'' @ s3Region cfg0
                              @ ''.amazonaws.com'' @ ''/'' @ key)) \<and>
   (\<exists>vid v key obj. params_videoId req0 = Some vid \<and>
      s3 (snd (handlerUploadVideo_001 cfg1 env0 req0 w0)) = (s3 w0)(key \<mapsto> obj) \<and>
      getVideo (db (snd (handlerUploadVideo_001 cfg1 env0 req0 w0))) vid = Some v \<and>
      videoURL v = Some (''https://'' @ s3CfDistribution cfg1 @ ''/'' @ key)) \<and>
   getVideo (db (snd (handlerUploadVideo_000 cfg0 env0 req0 w0))) ''v1'' =
     Some (video1\<lparr>videoURL := Some ''https://d1.cloudfront.net/landscape/v1.mp4''\<rparr>)"
proof -
  note a = playback_url_written [where cfg = cfg0 and e = env0 and req = req0 and w = w0
      and w' = "snd (handlerUploadVideo_000 cfg0 env0 req0 w0)"
      and resp = "JSONResponse 200 (video1\<lparr>videoURL := Some ''https://d1.cloudfront.net/landscape/v1.mp4''\<rparr>)"]
  note b = playback_url_written [where cfg = cfg0 and e = env0 and req = req0 and w = w0
      and w' = "snd (handlerUploadVideo cfg0 env0 req0 w0)"
      and resp = "JSONResponse 200 (video1\<lparr>videoURL :=
        Some ''https://tubely.s3.us-east-1.amazonaws.com/assets/landscape/r4nd0m.mp4''\<rparr>)"]
  from a run0_000 have 1: "\<exists>vid v key obj. params_videoId req0 = Some vid \<and>
      s3 (snd (handlerUploadVideo_000 cfg0 env0 req0 w0)) = (s3 w0)(key \<mapsto> obj) \<and>
      JSONResponse 200 (video1\<lparr>videoURL := Some ''https://d1.cloudfront.net/landscape/v1.mp4''\<rparr>)
        = JSONResponse 200 v \<and>
      getVideo (db (snd (handlerUploadVideo_000 cfg0 env0 req0 w0))) vid = Some v \<and>
      videoURL v = Some (s3CfDistribution cfg0 @ ''/'' @ key)"
    by (rule conjunct1 [THEN mp])
  from b run0_ts have 2: "\<exists>vid v key obj. params_videoId req0 = Some vid \<and>
      s3 (snd (handlerUploadVideo cfg0 env0 req0 w0)) = (s3 w0)(key \<mapsto> obj) \<and>
      JSONResponse 200 (video1\<lparr>videoURL :=
        Some ''https://tubely.s3.us-east-1.amazonaws.com/assets/landscape/r4nd0m.mp4''\<rparr>)
        = JSONResponse 200 v \<and>
      getVideo (db (snd (handlerUploadVideo cfg0 env0 req0 w0))) vid = Some v \<and>
      videoURL v = Some (''https://'' @ s3Bucket cfg0 @ ''.s3.'' @ s3Region cfg0
                              @ ''.amazonaws.com'' @ ''/'' @ key)"
    by (rule conjunct2 [THEN conjunct1, THEN mp])
  have 3: "getVideo (db (snd (handlerUploadVideo_000 cfg0 env0 req0 w0))) ''v1'' =
     Some (video1\<lparr>videoURL := Some ''https://d1.cloudfront.net/landscape/v1.mp4''\<rparr>)"
    by (simp add: run_defs handlerUploadVideo_000_def)
  note c = playback_url_written [where cfg = cfg1 and e = env0 and req = req0 and w = w0
      and w' = "snd (handlerUploadVideo_001 cfg1 env0 req0 w0)"
      and resp = "JSONResponse 200 (video1\<lparr>videoURL :=
        Some ''https://d1.cloudfront.net/landscape/r4nd0m.mp4''\<rparr>)"]
  from c run0_001 have 4: "\<exists>vid v key obj. params_videoId req0 = Some vid \<and>
      s3 (snd (handlerUploadVideo_001 cfg1 env0 req0 w0)) = (s3 w0)(key \<mapsto> obj) \<and>
      JSONResponse 200 (video1\<lparr>videoURL :=
        Some ''https://d1.cloudfront.net/landscape/r4nd0m.mp4''\<rparr>) = JSONResponse 200 v \<and>
      getVideo (db (snd (handlerUploadVideo_001 cfg1 env0 req0 w0))) vid = Some v \<and>
      videoURL v = Some (''https://'' @ s3CfDistribution cfg1 @ ''/'' @ key)"
    by (rule conjunct2 [THEN conjunct2, THEN mp])
  from 1 2 3 4 show ?thesis by blast
qed

text \<open>
  Counterexample to C7 as stated: videos.ts writes the URL of the bucket's own
  endpoint, which is not the distribution address followed by a slash and the key.
\<close>

theorem playback_url_counterexample:
  "fst (handlerUploadVideo cfg0 env0 req0 w0) =
     Inr (JSONResponse 200 (video1\<lparr>videoURL :=
        Some ''https://tubely.s3.us-east-1.amazonaws.com/assets/landscape/r4nd0m.mp4''\<rparr>)) \<and>
   getVideo (db (snd (handlerUploadVideo cfg0 env0 req0 w0))) ''v1'' =
     Some (video1\<lparr>videoURL :=
        Some ''https://tubely.s3.us-east-1.amazonaws.com/assets/landscape/r4nd0m.mp4''\<rparr>) \<and>
   dom (s3 (snd (handlerUploadVideo cfg0 env0 req0 w0))) = {''assets/landscape/r4nd0m.mp4''} \<and>
   s3CfDistribution cfg0 @ ''/'' @ ''assets/landscape/r4nd0m.mp4'' =
     ''https://d1.cloudfront.net/assets/landscape/r4nd0m.mp4''"
  by (simp add: run_defs handlerUploadVideo_def)

section \<open>The buffered file\<close>

text \<open>
  C8, as the code has it. In a run of part_000 that has passed the checks, the disk
  changes at most at path.join("/tmp", videoId + ".mp4"), at that path followed by a
  double quote and .processed.mp4, and at that path followed by .processed.mp4, all
  three functions of the video identifier alone; on an error exit the payload is at
  the first. In videos.ts and part_001 the payload is written at
  path.join(assetsRoot, name + ".mp4"), where name is the random name drawn in the
  run, and the only other path touched is that one followed by .processed.
\<close>

theorem buffered_path:
  assumes "validUpload cfg e req w vid v f"
  shows
  "(let p = path_join [''/tmp'', vid @ ''.mp4'']; out = handlerUploadVideo_000 cfg e req w
    in (\<forall>q. q \<noteq> p \<and> q \<noteq> p @ [CHR 0x22] @ ''.processed.mp4'' \<and> q \<noteq> p @ ''.processed.mp4''
             \<longrightarrow> disk (snd out) q = disk w q) \<and>
       (\<forall>err. fst out = Inl err \<longrightarrow> disk (snd out) p = Some (file_data f))) \<and>
   (let p = path_join [assetsRoot cfg, randomBytes32 e @ ''.mp4'']; out = handlerUploadVideo cfg e req w
    in (\<forall>q. q \<noteq> p \<and> q \<noteq> p @ ''.processed'' \<longrightarrow> disk (snd out) q = disk w q) \<and>
       disk (snd out) p = Some (file_data f)) \<and>
   (let p = path_join [assetsRoot cfg, randomBytes32 e @ ''.mp4'']; out = handlerUploadVideo_001 cfg e req w
    in (\<forall>q. q \<noteq> p \<and> q \<noteq> p @ ''.processed'' \<longrightarrow> disk (snd out) q = disk w q) \<and>
       (\<forall>err. fst out = Inl err \<longrightarrow> disk (snd out) p = Some (file_data f)))"
  using assms
  apply (intro conjI)
  subgoal by (auto simp: handlerUploadVideo_000_def Let_def step_defs cond_defs split: all_splits)
  subgoal by (auto simp: handlerUploadVideo_def Let_def step_defs cond_defs split: all_splits)
  subgoal by (auto simp: handlerUploadVideo_001_def Let_def step_defs cond_defs split: all_splits)
  done

text \<open>Witness of C8: alice's upload for v1 with an ffprobe that fails.\<close>

theorem buffered_path_witness:
  "fst (handlerUploadVideo_000 cfg0 env_probe_fails req0 w0) = Inl (Error ''ffprobe failed: no such file'') \<and>
   disk (snd (handlerUploadVideo_000 cfg0 env_probe_fails req0 w0)) ''/tmp/v1.mp4'' = Some [1, 2, 3] \<and>
   disk (snd (handlerUploadVideo_000 cfg0 env_probe_fails req0 w0)) ''/tmp/v2.mp4'' = disk w0 ''/tmp/v2.mp4'' \<and>
   disk (snd (handlerUploadVideo cfg0 env_probe_fails req0 w0)) ''assets/r4nd0m.mp4'' = Some [1, 2, 3] \<and>
   disk (snd (handlerUploadVideo_001 cfg0 env_probe_fails req0 w0)) ''assets/r4nd0m.mp4'' = Some [1, 2, 3]"
proof -
  let ?f = "\<lparr>file_type = ''video/mp4'', file_data = [1, 2, 3]\<rparr>"
  let ?out = "handlerUploadVideo_000 cfg0 env_probe_fails req0 w0"
  have e: "fst ?out = Inl (Error ''ffprobe failed: no such file'')"
    by (simp add: run_defs handlerUploadVideo_000_def)
  have n: "''/tmp/v2.mp4'' \<noteq> ''/tmp/v1.mp4'' \<and>
           ''/tmp/v2.mp4'' \<noteq> ''/tmp/v1.mp4'' @ [CHR 0x22] @ ''.processed.mp4'' \<and>
           ''/tmp/v2.mp4'' \<noteq> ''/tmp/v1.mp4'' @ ''.processed.mp4''"
    by simp
  note t = buffered_path [OF req0_valid(2), unfolded Let_def tmp_path_v1 asset_path_r4nd0m]
  from t have a: "(\<forall>q. q \<noteq> ''/tmp/v1.mp4'' \<and> q \<noteq> ''/tmp/v1.mp4'' @ [CHR 0x22] @ ''.processed.mp4'' \<and>
                      q \<noteq> ''/tmp/v1.mp4'' @ ''.processed.mp4''
             \<longrightarrow> disk (snd ?out) q = disk w0 q) \<and>
       (\<forall>err. fst ?out = Inl err \<longrightarrow> disk (snd ?out) ''/tmp/v1.mp4'' = Some (file_data ?f))"
    by (rule conjunct1)
  from a [THEN conjunct2, THEN spec, THEN mp, OF e]
  have 1: "disk (snd ?out) ''/tmp/v1.mp4'' = Some [1, 2, 3]"
    by simp
  from a [THEN conjunct1, THEN spec, THEN mp, OF n]
  have 2: "disk (snd ?out) ''/tmp/v2.mp4'' = disk w0 ''/tmp/v2.mp4''" .
  from t [THEN conjunct2, THEN conjunct1, THEN conjunct2]
  have 3: "disk (snd (handlerUploadVideo cfg0 env_probe_fails req0 w0)) ''assets/r4nd0m.mp4'' = Some [1, 2, 3]"
    by simp
  have e1: "fst (handlerUploadVideo_001 cfg0 env_probe_fails req0 w0) =
             Inl (Error ''ffprobe failed: no such file'')"
    by (simp add: run_defs handlerUploadVideo_001_def)
  from t [THEN conjunct2, THEN conjunct2, THEN conjunct2, THEN spec, THEN mp, OF e1]
  have 4: "disk (snd (handlerUploadVideo_001 cfg0 env_probe_fails req0 w0)) ''assets/r4nd0m.mp4'' = Some [1, 2, 3]"
    by simp
  from e 1 2 3 4 show ?thesis by (intro conjI)
qed

text \<open>
  Counterexample to C8 as stated: two runs of videos.ts for v1 that draw different
  random names buffer the payload at different paths.
\<close>

theorem buffered_path_counterexample:
  "params_videoId req0 = Some ''v1'' \<and>
   disk (snd (handlerUploadVideo cfg0 env_probe_fails req0 w0)) ''assets/r4nd0m.mp4'' = Some [1, 2, 3] \<and>
   disk (snd (handlerUploadVideo cfg0 (env_probe_fails\<lparr>randomBytes32 := ''0th3r''\<rparr>) req0 w0))
     ''assets/r4nd0m.mp4'' = None \<and>
   disk (snd (handlerUploadVideo cfg0 (env_probe_fails\<lparr>randomBytes32 := ''0th3r''\<rparr>) req0 w0))
     ''assets/0th3r.mp4'' = Some [1, 2, 3]"
  by (simp add: run_defs handlerUploadVideo_def)

section \<open>The thumbnail map\<close>






end
